theory Spec2Isabelle
  imports Main
begin

section \<open>JSON values and Python dictionaries\<close>

text \<open>
  The server moves JSON values between the RPC caller and the backend. A Python
  \<^verbatim>\<open>dict\<close> with string keys keeps insertion order, so an object is an association list.
  Strings are lists of characters, each character standing for one code point below 256.

  The server does no arithmetic on floats; it only prints the ones the backend sent. A
  float is therefore one of the three non-finite values or, when finite, the decimal
  numeral that \<^verbatim>\<open>float.__repr__\<close> prints for it: a sign, the integral part, the digits
  of the fraction (\<^verbatim>\<open>1.5\<close>, \<^verbatim>\<open>-0.0\<close>) and the exponent (\<^verbatim>\<open>1e+16\<close>, \<^verbatim>\<open>2.5e-07\<close>) where
  the numeral has them.
\<close>

record decimal =
  negative :: bool
  integral :: nat
  fraction :: "nat list"
  exponent :: "int option"

datatype pyfloat = Float_nan | Float_inf | Float_neg_inf | Float_finite decimal

datatype json =
    JNull
  | JBool bool
  | JInt int
  | JFloat pyfloat
  | JStr string
  | JArr "json list"
  | JObj "(string \<times> json) list"

type_synonym pydict = "(string \<times> json) list"

text \<open>\<^verbatim>\<open>d[k] = v\<close>: an existing key keeps its position, a new key goes to the end.\<close>

fun dict_set :: "pydict \<Rightarrow> string \<Rightarrow> json \<Rightarrow> pydict" where
  "dict_set [] k v = [(k, v)]"
| "dict_set ((k', v') # d) k v = (if k' = k then (k, v) # d else (k', v') # dict_set d k v)"

text \<open>\<^verbatim>\<open>d.get(k)\<close> as an option, and \<^verbatim>\<open>k in d\<close>.\<close>

definition dict_get :: "pydict \<Rightarrow> string \<Rightarrow> json option" where
  "dict_get d k = map_of d k"

definition dict_has :: "pydict \<Rightarrow> string \<Rightarrow> bool" where
  "dict_has d k = (dict_get d k \<noteq> None)"


section \<open>Formatting integers and strings as Python does\<close>

text \<open>\<^verbatim>\<open>str(n)\<close> of an integer, as an f-string and the JSON encoder print it.\<close>

definition digit_char :: "nat \<Rightarrow> char" where
  "digit_char d = ''0123456789'' ! (d mod 10)"

function str_nat :: "nat \<Rightarrow> string" where
  "str_nat n = (if n < 10 then [digit_char n] else str_nat (n div 10) @ [digit_char (n mod 10)])"
  by pat_completeness auto
termination
  by (relation "measure (\<lambda>n. n)") auto

declare str_nat.simps [simp del]

definition str_int :: "int \<Rightarrow> string" where
  "str_int i = (if i < 0 then CHR ''-'' # str_nat (nat (- i)) else str_nat (nat i))"

text \<open>
  \<^verbatim>\<open>float.__repr__\<close> of a finite float writes its numeral: the fraction after a point when
  there is one, the exponent with its sign and at least two digits when there is one.
  \<open>floatstr\<close> is the float branch of the JSON encoder with its default
  \<^verbatim>\<open>allow_nan=True\<close>: the non-finite values are written as the JavaScript names.
\<close>

definition two_digits :: "nat \<Rightarrow> string" where
  "two_digits n = (if n < 10 then CHR ''0'' # str_nat n else str_nat n)"

definition exponent_text :: "int \<Rightarrow> string" where
  "exponent_text e = CHR ''e'' # (if e < 0 then CHR ''-'' else CHR ''+'') # two_digits (nat \<bar>e\<bar>)"

definition float_repr :: "decimal \<Rightarrow> string" where
  "float_repr d =
     (if negative d then ''-'' else [])
     @ str_nat (integral d)
     @ (if fraction d = [] then [] else CHR ''.'' # map digit_char (fraction d))
     @ (case exponent d of None \<Rightarrow> [] | Some e \<Rightarrow> exponent_text e)"

fun floatstr :: "pyfloat \<Rightarrow> string" where
  "floatstr Float_nan = ''NaN''"
| "floatstr Float_inf = ''Infinity''"
| "floatstr Float_neg_inf = ''-Infinity''"
| "floatstr (Float_finite d) = float_repr d"

text \<open>\<^verbatim>\<open>sep.join(xs)\<close>.\<close>

fun join :: "string \<Rightarrow> string list \<Rightarrow> string" where
  "join sep [] = []"
| "join sep [x] = x"
| "join sep (x # y # ys) = x @ sep @ join sep (y # ys)"

subsection \<open>The JSON encoder of the standard library\<close>

text \<open>
  \<^verbatim>\<open>json.dumps\<close> with its defaults (\<^verbatim>\<open>ensure_ascii=True\<close>): the characters
  backslash and double quote and every character outside the range space to tilde are
  escaped, through the table of short escapes first and as \<^verbatim>\<open>\uXXXX\<close> otherwise.
\<close>

definition hex_digit :: "nat \<Rightarrow> char" where
  "hex_digit d = ''0123456789abcdef'' ! (d mod 16)"

definition hex4 :: "nat \<Rightarrow> string" where
  "hex4 n = [hex_digit (n div 4096), hex_digit (n div 256), hex_digit (n div 16), hex_digit n]"

definition backslash :: char where
  "backslash = CHR 0x5C"

definition dquote :: char where
  "dquote = CHR 0x22"

definition newline :: char where
  "newline = CHR 0x0A"

definition escape_char :: "char \<Rightarrow> string" where
  "escape_char c =
     (if c = backslash then [backslash, backslash]
      else if c = dquote then [backslash, dquote]
      else if c = CHR 0x08 then [backslash, CHR ''b'']
      else if c = CHR 0x0C then [backslash, CHR ''f'']
      else if c = newline then [backslash, CHR ''n'']
      else if c = CHR 0x0D then [backslash, CHR ''r'']
      else if c = CHR 0x09 then [backslash, CHR ''t'']
      else if (0x20::nat) \<le> of_char c \<and> (of_char c :: nat) \<le> 0x7E then [c]
      else [backslash, CHR ''u''] @ hex4 (of_char c))"

definition encode_basestring_ascii :: "string \<Rightarrow> string" where
  "encode_basestring_ascii s = dquote # concat (map escape_char s) @ [dquote]"

text \<open>
  The encoder proper. With \<^verbatim>\<open>indent=None\<close> the items of a container are separated by
  a comma and a space on one line; with \<^verbatim>\<open>indent=n\<close> each item starts a new line,
  indented by \<open>n\<close> spaces per nesting level, and the separator is the bare comma. An empty
  container is \<^verbatim>\<open>[]\<close> or \<^verbatim>\<open>{}\<close> in both cases.
\<close>

definition newline_indent :: "nat option \<Rightarrow> nat \<Rightarrow> string" where
  "newline_indent ind lvl = (case ind of None \<Rightarrow> [] | Some n \<Rightarrow> newline # replicate (n * lvl) (CHR '' ''))"

definition item_separator :: "nat option \<Rightarrow> string" where
  "item_separator ind = (case ind of None \<Rightarrow> '', '' | Some n \<Rightarrow> '','')"

definition key_separator :: string where
  "key_separator = '': ''"

fun iterencode :: "nat option \<Rightarrow> nat \<Rightarrow> json \<Rightarrow> string" where
  "iterencode ind lvl JNull = ''null''"
| "iterencode ind lvl (JBool b) = (if b then ''true'' else ''false'')"
| "iterencode ind lvl (JInt i) = str_int i"
| "iterencode ind lvl (JFloat x) = floatstr x"
| "iterencode ind lvl (JStr s) = encode_basestring_ascii s"
| "iterencode ind lvl (JArr xs) =
     (if xs = [] then ''[]''
      else ''['' @ newline_indent ind (Suc lvl)
           @ join (item_separator ind @ newline_indent ind (Suc lvl))
                  (map (iterencode ind (Suc lvl)) xs)
           @ newline_indent ind lvl @ '']'')"
| "iterencode ind lvl (JObj kvs) =
     (if kvs = [] then ''{}''
      else ''{'' @ newline_indent ind (Suc lvl)
           @ join (item_separator ind @ newline_indent ind (Suc lvl))
                  (map (\<lambda>kv. encode_basestring_ascii (fst kv) @ key_separator
                               @ iterencode ind (Suc lvl) (snd kv)) kvs)
           @ newline_indent ind lvl @ ''}'')"

definition json_dumps :: "json \<Rightarrow> nat option \<Rightarrow> string" where
  "json_dumps obj indent = iterencode indent 0 obj"

section \<open>Exceptions, the HTTP client and the process state\<close>

text \<open>
  The handlers of the server tell two classes of exception apart: \<^verbatim>\<open>aiohttp.ClientError\<close>
  and every other subclass of \<^verbatim>\<open>Exception\<close>. Both carry the text that \<^verbatim>\<open>str(e)\<close>
  gives. Signals outside \<^verbatim>\<open>Exception\<close> (cancellation of the coroutine, interpreter exit) are not
  answers of the backend and are not part of the model.
\<close>

datatype exn = ClientError string | OtherException string

fun str_exn :: "exn \<Rightarrow> string" where
  "str_exn (ClientError m) = m"
| "str_exn (OtherException m) = m"

text \<open>
  What the HTTP client raises for the failures of the network. A refused connection
  and a failed name lookup raise \<^verbatim>\<open>ClientConnectorError\<close>, a client error. A backend
  that accepts the connection and does not answer within \<^verbatim>\<open>ClientTimeout(total=...)\<close>
  makes the client raise \<^verbatim>\<open>asyncio.TimeoutError\<close>, which is no client error and is
  raised without a message.
\<close>

datatype network_failure = Connection_refused string | Dns_failure string | No_response_in_time

fun client_raises :: "network_failure \<Rightarrow> exn" where
  "client_raises (Connection_refused m) = ClientError m"
| "client_raises (Dns_failure m) = ClientError m"
| "client_raises No_response_in_time = OtherException []"

text \<open>
  What \<^verbatim>\<open>response.json()\<close> raises for a body it cannot return: \<^verbatim>\<open>ContentTypeError\<close>, a
  client error, when the content type of the response is not JSON, and
  \<^verbatim>\<open>json.JSONDecodeError\<close>, no client error, when the body does not parse.
\<close>

datatype body_failure = Unexpected_mimetype string | Malformed_body string

fun reader_raises :: "body_failure \<Rightarrow> exn" where
  "reader_raises (Unexpected_mimetype m) = ClientError m"
| "reader_raises (Malformed_body m) = OtherException m"

datatype http_method = GET | POST

record http_request =
  req_method :: http_method
  req_url :: string
  req_json :: "json option"
  req_timeout_total :: nat

text \<open>
  A response is its status and what the two readers do when they are awaited:
  \<^verbatim>\<open>response.json()\<close> parses the body or raises, \<^verbatim>\<open>response.text()\<close> decodes it or
  raises.
\<close>

record http_response =
  status :: int
  json_body :: "exn + json"
  text_body :: "exn + string"

text \<open>
  The backend, as the client sees it: entering the request either raises or yields a
  response.
\<close>

type_synonym backend = "http_request \<Rightarrow> exn + http_response"

text \<open>
  The module-level state: the base URL resolved at import time, the target window id
  (initially empty), and, as a trace of the effects, the requests issued so far.
\<close>

record world =
  INCOGNIDE_BACKEND_URL :: string
  target_window_id :: string
  sent :: "http_request list"

section \<open>Backend locator\<close>

text \<open>
  \<^verbatim>\<open>os.environ.get(name, default)\<close> over the environment as a map, and the loop over
  the candidate ports. \<open>connects p\<close> says whether the body of the \<^verbatim>\<open>try\<close> for port
  \<open>p\<close> runs to its \<^verbatim>\<open>return\<close>; the bare \<^verbatim>\<open>except\<close> swallows everything else. The
  second component of the result lists the ports that were tried, in order.
\<close>

definition environ_get :: "(string \<rightharpoonup> string) \<Rightarrow> string \<Rightarrow> string \<Rightarrow> string" where
  "environ_get environ name dflt = (case environ name of None \<Rightarrow> dflt | Some v \<Rightarrow> v)"

fun probe_ports :: "(int \<Rightarrow> bool) \<Rightarrow> int list \<Rightarrow> string option \<times> int list" where
  "probe_ports connects [] = (None, [])"
| "probe_ports connects (port # ports) =
     (if connects port then (Some (''http://127.0.0.1:'' @ str_int port), [port])
      else (case probe_ports connects ports of (r, tried) \<Rightarrow> (r, port # tried)))"

definition detect_backend_url :: "(string \<rightharpoonup> string) \<Rightarrow> (int \<Rightarrow> bool) \<Rightarrow> string \<times> int list" where
  "detect_backend_url environ connects =
     (let explicit = environ_get environ ''INCOGNIDE_BACKEND_URL'' []
      in if explicit \<noteq> [] then (explicit, [])
         else (case probe_ports connects [5337, 5437] of
                 (Some url, tried) \<Rightarrow> (url, tried)
               | (None, tried) \<Rightarrow> (''http://127.0.0.1:5437'', tried)))"

text \<open>The state of the process once the module is loaded.\<close>

definition initial_world :: "(string \<rightharpoonup> string) \<Rightarrow> (int \<Rightarrow> bool) \<Rightarrow> world" where
  "initial_world environ connects =
     \<lparr>INCOGNIDE_BACKEND_URL = fst (detect_backend_url environ connects),
      target_window_id = [], sent = []\<rparr>"

section \<open>Action relay\<close>

definition failure :: "string \<Rightarrow> json" where
  "failure msg = JObj [(''success'', JBool False), (''error'', JStr msg)]"

text \<open>
  The payload and the request of one call. The key \<^verbatim>\<open>window_id\<close> is added only for a
  non-empty effective window id.
\<close>

definition action_payload :: "string \<Rightarrow> pydict \<Rightarrow> string \<Rightarrow> pydict" where
  "action_payload action args effective_window_id =
     (let payload = [(''action'', JStr action), (''args'', JObj args)]
      in if effective_window_id \<noteq> [] then dict_set payload ''window_id'' (JStr effective_window_id)
         else payload)"

definition action_request :: "world \<Rightarrow> pydict \<Rightarrow> http_request" where
  "action_request w payload =
     \<lparr>req_method = POST, req_url = INCOGNIDE_BACKEND_URL w @ ''/api/studio/action'',
      req_json = Some (JObj payload), req_timeout_total = 30\<rparr>"

text \<open>What a request carries under \<^verbatim>\<open>window_id\<close> and under \<^verbatim>\<open>args\<close>.\<close>

definition payload_window_id :: "http_request \<Rightarrow> json option" where
  "payload_window_id req =
     (case req_json req of Some (JObj payload) \<Rightarrow> dict_get payload ''window_id'' | _ \<Rightarrow> None)"

definition payload_args :: "http_request \<Rightarrow> pydict option" where
  "payload_args req =
     (case req_json req of
        Some (JObj payload) \<Rightarrow>
          (case dict_get payload ''args'' of Some (JObj args) \<Rightarrow> Some args | _ \<Rightarrow> None)
      | _ \<Rightarrow> None)"

text \<open>
  The body of the \<^verbatim>\<open>try\<close> once the payload is built: post it and read the answer. An
  exception of the client or of a reader leaves the body as \<open>Inl\<close>.
\<close>

definition post_action :: "backend \<Rightarrow> http_request \<Rightarrow> exn + json" where
  "post_action be req =
     (case be req of
        Inl e \<Rightarrow> Inl e
      | Inr response \<Rightarrow>
          if status response = 200 then json_body response
          else (case text_body response of
                  Inl e \<Rightarrow> Inl e
                | Inr error_text \<Rightarrow>
                    Inr (failure (''HTTP '' @ str_int (status response) @ '': '' @ error_text))))"

text \<open>
  The relay: the window id of the call wins when it is not empty, the registry is read
  otherwise; the two handlers turn an exception into a failure object. The result is
  \<open>Inr\<close> when the function returns and \<open>Inl\<close> when an exception leaves it. The
  diagnostic lines that the function writes to the standard error stream are not part
  of the state.
\<close>

definition call_incognide_action ::
  "backend \<Rightarrow> string \<Rightarrow> pydict \<Rightarrow> string \<Rightarrow> world \<Rightarrow> (exn + json) \<times> world" where
  "call_incognide_action be action args window_id w =
     (let effective_window_id = (if window_id \<noteq> [] then window_id else target_window_id w);
          req = action_request w (action_payload action args effective_window_id);
          w' = w\<lparr>sent := sent w @ [req]\<rparr>
      in case post_action be req of
           Inr result \<Rightarrow> (Inr result, w')
         | Inl (ClientError m) \<Rightarrow> (Inr (failure (''Connection error: '' @ m)), w')
         | Inl (OtherException m) \<Rightarrow> (Inr (failure (''Error: '' @ m)), w'))"

section \<open>Window management tools\<close>

text \<open>A tool returns the text of its answer, or lets an exception escape (\<open>Inl\<close>).\<close>

type_synonym tool_result = "(exn + string) \<times> world"

definition windows_request :: "world \<Rightarrow> http_request" where
  "windows_request w =
     \<lparr>req_method = GET, req_url = INCOGNIDE_BACKEND_URL w @ ''/api/studio/windows'',
      req_json = None, req_timeout_total = 10\<rparr>"

definition list_windows_body :: "backend \<Rightarrow> http_request \<Rightarrow> exn + string" where
  "list_windows_body be req =
     (case be req of
        Inl e \<Rightarrow> Inl e
      | Inr response \<Rightarrow>
          if status response = 200
          then (case json_body response of
                  Inl e \<Rightarrow> Inl e
                | Inr result \<Rightarrow> Inr (json_dumps result (Some 2)))
          else (case text_body response of
                  Inl e \<Rightarrow> Inl e
                | Inr error_text \<Rightarrow>
                    Inr (json_dumps
                          (failure (''HTTP '' @ str_int (status response) @ '': '' @ error_text))
                          None)))"

definition list_windows :: "backend \<Rightarrow> world \<Rightarrow> tool_result" where
  "list_windows be w =
     (let req = windows_request w;
          w' = w\<lparr>sent := sent w @ [req]\<rparr>
      in case list_windows_body be req of
           Inr text \<Rightarrow> (Inr text, w')
         | Inl e \<Rightarrow> (Inr (json_dumps (failure (str_exn e)) None), w'))"

definition set_target_window_confirmation :: "string \<Rightarrow> json" where
  "set_target_window_confirmation window_id =
     JObj [(''success'', JBool True),
           (''target_window_id'', JStr window_id),
           (''message'', JStr (if window_id \<noteq> [] then ''Target window set to: '' @ window_id
                              else ''Target window cleared (broadcast mode)''))]"

definition set_target_window :: "string \<Rightarrow> world \<Rightarrow> tool_result" where
  "set_target_window window_id w =
     (Inr (json_dumps (set_target_window_confirmation window_id) None),
      w\<lparr>target_window_id := window_id\<rparr>)"

definition get_target_window_answer :: "world \<Rightarrow> json" where
  "get_target_window_answer w =
     JObj [(''success'', JBool True),
           (''target_window_id'', JStr (target_window_id w)),
           (''is_set'', JBool (target_window_id w \<noteq> []))]"

definition get_target_window :: "world \<Rightarrow> tool_result" where
  "get_target_window w = (Inr (json_dumps (get_target_window_answer w) None), w)"

section \<open>Tools that delegate to the relay\<close>

text \<open>
  Every other tool builds its argument dictionary, awaits the relay without a window id
  of its own, and returns \<^verbatim>\<open>json.dumps(result, indent=2)\<close>. \<open>relay_tool\<close> is that common
  tail; an exception leaving the relay would leave the tool as well.
\<close>

definition relay_tool :: "backend \<Rightarrow> string \<Rightarrow> pydict \<Rightarrow> world \<Rightarrow> tool_result" where
  "relay_tool be action args w =
     (case call_incognide_action be action args [] w of
        (Inl e, w') \<Rightarrow> (Inl e, w')
      | (Inr result, w') \<Rightarrow> (Inr (json_dumps result (Some 2)), w'))"

subsection \<open>Panes, browser, dialogs\<close>

definition open_pane_args :: "string \<Rightarrow> string \<Rightarrow> string \<Rightarrow> string \<Rightarrow> pydict" where
  "open_pane_args pane_type content_id position shell_type =
     (let args = [(''type'', JStr pane_type), (''position'', JStr position)];
          args = (if content_id \<noteq> []
                  then (if pane_type = ''browser'' then dict_set args ''url'' (JStr content_id)
                        else dict_set args ''path'' (JStr content_id))
                  else args);
          args = (if shell_type \<noteq> [] then dict_set args ''shellType'' (JStr shell_type) else args)
      in args)"

definition open_pane :: "backend \<Rightarrow> string \<Rightarrow> string \<Rightarrow> string \<Rightarrow> string \<Rightarrow> world \<Rightarrow> tool_result" where
  "open_pane be pane_type content_id position shell_type =
     relay_tool be ''open_pane'' (open_pane_args pane_type content_id position shell_type)"

definition close_pane :: "backend \<Rightarrow> string \<Rightarrow> world \<Rightarrow> tool_result" where
  "close_pane be pane_id = relay_tool be ''close_pane'' [(''paneId'', JStr pane_id)]"

definition focus_pane :: "backend \<Rightarrow> string \<Rightarrow> world \<Rightarrow> tool_result" where
  "focus_pane be pane_id = relay_tool be ''focus_pane'' [(''paneId'', JStr pane_id)]"

definition list_panes :: "backend \<Rightarrow> world \<Rightarrow> tool_result" where
  "list_panes be = relay_tool be ''list_panes'' []"

definition list_pane_types :: "backend \<Rightarrow> world \<Rightarrow> tool_result" where
  "list_pane_types be = relay_tool be ''list_pane_types'' []"

definition list_actions :: "backend \<Rightarrow> world \<Rightarrow> tool_result" where
  "list_actions be = relay_tool be ''list_actions'' []"

definition navigate_browser :: "backend \<Rightarrow> string \<Rightarrow> string \<Rightarrow> world \<Rightarrow> tool_result" where
  "navigate_browser be url pane_id =
     relay_tool be ''navigate'' [(''paneId'', JStr pane_id), (''url'', JStr url)]"

definition show_diff :: "backend \<Rightarrow> string \<Rightarrow> string \<Rightarrow> string \<Rightarrow> world \<Rightarrow> tool_result" where
  "show_diff be original modified title =
     relay_tool be ''open_pane''
       [(''type'', JStr ''diff''), (''original'', JStr original),
        (''modified'', JStr modified), (''title'', JStr title)]"

definition request_approval :: "backend \<Rightarrow> string \<Rightarrow> string \<Rightarrow> world \<Rightarrow> tool_result" where
  "request_approval be message title =
     relay_tool be ''confirm'' [(''message'', JStr message), (''title'', JStr title)]"

definition notify :: "backend \<Rightarrow> string \<Rightarrow> string \<Rightarrow> int \<Rightarrow> world \<Rightarrow> tool_result" where
  "notify be message notification_type duration =
     relay_tool be ''notify''
       [(''message'', JStr message), (''type'', JStr notification_type),
        (''duration'', JInt duration)]"

definition get_browser_info :: "backend \<Rightarrow> string \<Rightarrow> world \<Rightarrow> tool_result" where
  "get_browser_info be pane_id = relay_tool be ''get_browser_info'' [(''paneId'', JStr pane_id)]"

definition split_pane :: "backend \<Rightarrow> string \<Rightarrow> string \<Rightarrow> string \<Rightarrow> string \<Rightarrow> world \<Rightarrow> tool_result" where
  "split_pane be direction pane_type content_id pane_id =
     relay_tool be ''split_pane''
       [(''paneId'', JStr pane_id), (''direction'', JStr direction),
        (''type'', JStr pane_type), (''path'', JStr content_id)]"

definition zen_mode :: "backend \<Rightarrow> string \<Rightarrow> world \<Rightarrow> tool_result" where
  "zen_mode be pane_id = relay_tool be ''zen_mode'' [(''paneId'', JStr pane_id)]"

definition run_terminal :: "backend \<Rightarrow> string \<Rightarrow> string \<Rightarrow> world \<Rightarrow> tool_result" where
  "run_terminal be command pane_id =
     relay_tool be ''run_terminal'' [(''command'', JStr command), (''paneId'', JStr pane_id)]"

definition browser_click :: "backend \<Rightarrow> string \<Rightarrow> string \<Rightarrow> int \<Rightarrow> string \<Rightarrow> world \<Rightarrow> tool_result" where
  "browser_click be selector text index pane_id =
     relay_tool be ''browser_click''
       [(''paneId'', JStr pane_id), (''selector'', JStr selector),
        (''text'', JStr text), (''index'', JInt index)]"

definition browser_type :: "backend \<Rightarrow> string \<Rightarrow> string \<Rightarrow> bool \<Rightarrow> bool \<Rightarrow> string \<Rightarrow> world \<Rightarrow> tool_result" where
  "browser_type be selector text clear submit pane_id =
     relay_tool be ''browser_type''
       [(''paneId'', JStr pane_id), (''selector'', JStr selector), (''text'', JStr text),
        (''clear'', JBool clear), (''submit'', JBool submit)]"

definition get_browser_content :: "backend \<Rightarrow> string \<Rightarrow> world \<Rightarrow> tool_result" where
  "get_browser_content be pane_id =
     relay_tool be ''get_browser_content'' [(''paneId'', JStr pane_id)]"

definition browser_screenshot :: "backend \<Rightarrow> string \<Rightarrow> world \<Rightarrow> tool_result" where
  "browser_screenshot be pane_id =
     relay_tool be ''browser_screenshot'' [(''paneId'', JStr pane_id)]"

definition browser_eval :: "backend \<Rightarrow> string \<Rightarrow> string \<Rightarrow> world \<Rightarrow> tool_result" where
  "browser_eval be code pane_id =
     relay_tool be ''browser_eval'' [(''paneId'', JStr pane_id), (''code'', JStr code)]"

subsection \<open>Spreadsheets\<close>

definition spreadsheet_read :: "backend \<Rightarrow> string \<Rightarrow> int \<Rightarrow> bool \<Rightarrow> world \<Rightarrow> tool_result" where
  "spreadsheet_read be pane_id max_rows include_stats =
     relay_tool be ''spreadsheet_read''
       [(''paneId'', JStr pane_id), (''maxRows'', JInt max_rows),
        (''includeStats'', JBool include_stats)]"

definition spreadsheet_eval :: "backend \<Rightarrow> string \<Rightarrow> string \<Rightarrow> world \<Rightarrow> tool_result" where
  "spreadsheet_eval be code pane_id =
     relay_tool be ''spreadsheet_eval'' [(''paneId'', JStr pane_id), (''code'', JStr code)]"

definition spreadsheet_update_cell :: "backend \<Rightarrow> int \<Rightarrow> int \<Rightarrow> string \<Rightarrow> string \<Rightarrow> world \<Rightarrow> tool_result" where
  "spreadsheet_update_cell be row col val pane_id =
     relay_tool be ''spreadsheet_update_cell''
       [(''paneId'', JStr pane_id), (''row'', JInt row), (''col'', JInt col),
        (''value'', JStr val)]"

definition spreadsheet_update_cells :: "backend \<Rightarrow> json list \<Rightarrow> string \<Rightarrow> world \<Rightarrow> tool_result" where
  "spreadsheet_update_cells be updates pane_id =
     relay_tool be ''spreadsheet_update_cells''
       [(''paneId'', JStr pane_id), (''updates'', JArr updates)]"

definition spreadsheet_add_row_args :: "int \<Rightarrow> string \<Rightarrow> pydict" where
  "spreadsheet_add_row_args index pane_id =
     [(''paneId'', JStr pane_id), (''index'', if index \<ge> 0 then JInt index else JNull)]"

definition spreadsheet_add_row :: "backend \<Rightarrow> int \<Rightarrow> string \<Rightarrow> world \<Rightarrow> tool_result" where
  "spreadsheet_add_row be index pane_id =
     relay_tool be ''spreadsheet_add_row'' (spreadsheet_add_row_args index pane_id)"

definition spreadsheet_delete_row :: "backend \<Rightarrow> int \<Rightarrow> string \<Rightarrow> world \<Rightarrow> tool_result" where
  "spreadsheet_delete_row be index pane_id =
     relay_tool be ''spreadsheet_delete_row'' [(''paneId'', JStr pane_id), (''index'', JInt index)]"

definition spreadsheet_add_column :: "backend \<Rightarrow> string \<Rightarrow> string \<Rightarrow> world \<Rightarrow> tool_result" where
  "spreadsheet_add_column be name pane_id =
     relay_tool be ''spreadsheet_add_column'' [(''paneId'', JStr pane_id), (''name'', JStr name)]"

definition spreadsheet_delete_column :: "backend \<Rightarrow> int \<Rightarrow> string \<Rightarrow> world \<Rightarrow> tool_result" where
  "spreadsheet_delete_column be col pane_id =
     relay_tool be ''spreadsheet_delete_column'' [(''paneId'', JStr pane_id), (''col'', JInt col)]"

definition spreadsheet_sort :: "backend \<Rightarrow> int \<Rightarrow> string \<Rightarrow> string \<Rightarrow> world \<Rightarrow> tool_result" where
  "spreadsheet_sort be col direction pane_id =
     relay_tool be ''spreadsheet_sort''
       [(''paneId'', JStr pane_id), (''col'', JInt col), (''direction'', JStr direction)]"

definition spreadsheet_stats :: "backend \<Rightarrow> int \<Rightarrow> string \<Rightarrow> world \<Rightarrow> tool_result" where
  "spreadsheet_stats be col pane_id =
     relay_tool be ''spreadsheet_stats'' [(''paneId'', JStr pane_id), (''col'', JInt col)]"

definition spreadsheet_save :: "backend \<Rightarrow> string \<Rightarrow> world \<Rightarrow> tool_result" where
  "spreadsheet_save be pane_id = relay_tool be ''spreadsheet_save'' [(''paneId'', JStr pane_id)]"

definition spreadsheet_export :: "backend \<Rightarrow> string \<Rightarrow> string \<Rightarrow> world \<Rightarrow> tool_result" where
  "spreadsheet_export be fmt pane_id =
     relay_tool be ''spreadsheet_export'' [(''paneId'', JStr pane_id), (''format'', JStr fmt)]"

definition spreadsheet_switch_sheet :: "backend \<Rightarrow> string \<Rightarrow> string \<Rightarrow> world \<Rightarrow> tool_result" where
  "spreadsheet_switch_sheet be sheet_name pane_id =
     relay_tool be ''spreadsheet_switch_sheet''
       [(''paneId'', JStr pane_id), (''sheetName'', JStr sheet_name)]"

subsection \<open>Documents\<close>

definition document_read :: "backend \<Rightarrow> string \<Rightarrow> string \<Rightarrow> world \<Rightarrow> tool_result" where
  "document_read be fmt pane_id =
     relay_tool be ''document_read'' [(''paneId'', JStr pane_id), (''format'', JStr fmt)]"

definition document_eval :: "backend \<Rightarrow> string \<Rightarrow> string \<Rightarrow> world \<Rightarrow> tool_result" where
  "document_eval be code pane_id =
     relay_tool be ''document_eval'' [(''paneId'', JStr pane_id), (''code'', JStr code)]"

definition document_write :: "backend \<Rightarrow> string \<Rightarrow> string \<Rightarrow> string \<Rightarrow> world \<Rightarrow> tool_result" where
  "document_write be content position pane_id =
     relay_tool be ''document_write''
       [(''paneId'', JStr pane_id), (''content'', JStr content), (''position'', JStr position)]"

definition document_find_replace :: "backend \<Rightarrow> string \<Rightarrow> string \<Rightarrow> bool \<Rightarrow> string \<Rightarrow> world \<Rightarrow> tool_result" where
  "document_find_replace be search replace replace_all pane_id =
     relay_tool be ''document_find_replace''
       [(''paneId'', JStr pane_id), (''search'', JStr search), (''replace'', JStr replace),
        (''replaceAll'', JBool replace_all)]"

definition document_format :: "backend \<Rightarrow> string \<Rightarrow> string \<Rightarrow> string \<Rightarrow> world \<Rightarrow> tool_result" where
  "document_format be command val pane_id =
     relay_tool be ''document_format''
       [(''paneId'', JStr pane_id), (''command'', JStr command), (''value'', JStr val)]"

definition document_insert_table :: "backend \<Rightarrow> int \<Rightarrow> int \<Rightarrow> string \<Rightarrow> world \<Rightarrow> tool_result" where
  "document_insert_table be rows cols pane_id =
     relay_tool be ''document_insert_table''
       [(''paneId'', JStr pane_id), (''rows'', JInt rows), (''cols'', JInt cols)]"

definition document_save :: "backend \<Rightarrow> string \<Rightarrow> world \<Rightarrow> tool_result" where
  "document_save be pane_id = relay_tool be ''document_save'' [(''paneId'', JStr pane_id)]"

definition document_stats :: "backend \<Rightarrow> string \<Rightarrow> world \<Rightarrow> tool_result" where
  "document_stats be pane_id = relay_tool be ''document_stats'' [(''paneId'', JStr pane_id)]"

subsection \<open>Presentations\<close>

definition presentation_read :: "backend \<Rightarrow> string \<Rightarrow> world \<Rightarrow> tool_result" where
  "presentation_read be pane_id = relay_tool be ''presentation_read'' [(''paneId'', JStr pane_id)]"

definition presentation_read_slide_args :: "int \<Rightarrow> string \<Rightarrow> pydict" where
  "presentation_read_slide_args slide_index pane_id =
     [(''paneId'', JStr pane_id),
      (''slideIndex'', if slide_index \<ge> 0 then JInt slide_index else JNull)]"

definition presentation_read_slide :: "backend \<Rightarrow> int \<Rightarrow> string \<Rightarrow> world \<Rightarrow> tool_result" where
  "presentation_read_slide be slide_index pane_id =
     relay_tool be ''presentation_read_slide'' (presentation_read_slide_args slide_index pane_id)"

definition presentation_eval :: "backend \<Rightarrow> string \<Rightarrow> string \<Rightarrow> world \<Rightarrow> tool_result" where
  "presentation_eval be code pane_id =
     relay_tool be ''presentation_eval'' [(''paneId'', JStr pane_id), (''code'', JStr code)]"

definition presentation_update_text_args :: "int \<Rightarrow> string \<Rightarrow> int \<Rightarrow> string \<Rightarrow> pydict" where
  "presentation_update_text_args shape_index text slide_index pane_id =
     [(''paneId'', JStr pane_id), (''shapeIndex'', JInt shape_index), (''text'', JStr text),
      (''slideIndex'', if slide_index \<ge> 0 then JInt slide_index else JNull)]"

definition presentation_update_text :: "backend \<Rightarrow> int \<Rightarrow> string \<Rightarrow> int \<Rightarrow> string \<Rightarrow> world \<Rightarrow> tool_result" where
  "presentation_update_text be shape_index text slide_index pane_id =
     relay_tool be ''presentation_update_text''
       (presentation_update_text_args shape_index text slide_index pane_id)"

definition presentation_add_slide :: "backend \<Rightarrow> string \<Rightarrow> world \<Rightarrow> tool_result" where
  "presentation_add_slide be pane_id =
     relay_tool be ''presentation_add_slide'' [(''paneId'', JStr pane_id)]"

definition presentation_delete_slide_args :: "int \<Rightarrow> string \<Rightarrow> pydict" where
  "presentation_delete_slide_args slide_index pane_id =
     [(''paneId'', JStr pane_id),
      (''slideIndex'', if slide_index \<ge> 0 then JInt slide_index else JNull)]"

definition presentation_delete_slide :: "backend \<Rightarrow> int \<Rightarrow> string \<Rightarrow> world \<Rightarrow> tool_result" where
  "presentation_delete_slide be slide_index pane_id =
     relay_tool be ''presentation_delete_slide''
       (presentation_delete_slide_args slide_index pane_id)"

definition presentation_duplicate_slide_args :: "int \<Rightarrow> string \<Rightarrow> pydict" where
  "presentation_duplicate_slide_args slide_index pane_id =
     [(''paneId'', JStr pane_id),
      (''slideIndex'', if slide_index \<ge> 0 then JInt slide_index else JNull)]"

definition presentation_duplicate_slide :: "backend \<Rightarrow> int \<Rightarrow> string \<Rightarrow> world \<Rightarrow> tool_result" where
  "presentation_duplicate_slide be slide_index pane_id =
     relay_tool be ''presentation_duplicate_slide''
       (presentation_duplicate_slide_args slide_index pane_id)"

definition presentation_set_background :: "backend \<Rightarrow> string \<Rightarrow> string \<Rightarrow> world \<Rightarrow> tool_result" where
  "presentation_set_background be color pane_id =
     relay_tool be ''presentation_set_background''
       [(''paneId'', JStr pane_id), (''color'', JStr color)]"

definition presentation_add_shape :: "backend \<Rightarrow> string \<Rightarrow> string \<Rightarrow> string \<Rightarrow> world \<Rightarrow> tool_result" where
  "presentation_add_shape be shape_type color pane_id =
     relay_tool be ''presentation_add_shape''
       [(''paneId'', JStr pane_id), (''shapeType'', JStr shape_type), (''color'', JStr color)]"

definition presentation_save :: "backend \<Rightarrow> string \<Rightarrow> world \<Rightarrow> tool_result" where
  "presentation_save be pane_id = relay_tool be ''presentation_save'' [(''paneId'', JStr pane_id)]"

section \<open>The tool surface\<close>

text \<open>
  One constructor for each function registered with \<^verbatim>\<open>@mcp.tool()\<close>, carrying its
  parameters in the order of the signature, grouped as the sections of the module are,
  and the dispatch of a call to its function.
\<close>

datatype window_call =
    List_windows
  | Set_target_window string
  | Get_target_window

datatype pane_call =
    Open_pane string string string string
  | Close_pane string
  | Focus_pane string
  | List_panes
  | List_pane_types
  | List_actions
  | Navigate_browser string string
  | Show_diff string string string
  | Request_approval string string
  | Notify string string int
  | Get_browser_info string
  | Split_pane string string string string
  | Zen_mode string

datatype browser_call =
    Run_terminal string string
  | Browser_click string string int string
  | Browser_type string string bool bool string
  | Get_browser_content string
  | Browser_screenshot string
  | Browser_eval string string

datatype spreadsheet_call =
    Spreadsheet_read string int bool
  | Spreadsheet_eval string string
  | Spreadsheet_update_cell int int string string
  | Spreadsheet_update_cells "json list" string
  | Spreadsheet_add_row int string
  | Spreadsheet_delete_row int string
  | Spreadsheet_add_column string string
  | Spreadsheet_delete_column int string
  | Spreadsheet_sort int string string
  | Spreadsheet_stats int string
  | Spreadsheet_save string
  | Spreadsheet_export string string
  | Spreadsheet_switch_sheet string string

datatype document_call =
    Document_read string string
  | Document_eval string string
  | Document_write string string string
  | Document_find_replace string string bool string
  | Document_format string string string
  | Document_insert_table int int string
  | Document_save string
  | Document_stats string

datatype presentation_call =
    Presentation_read string
  | Presentation_read_slide int string
  | Presentation_eval string string
  | Presentation_update_text int string int string
  | Presentation_add_slide string
  | Presentation_delete_slide int string
  | Presentation_duplicate_slide int string
  | Presentation_set_background string string
  | Presentation_add_shape string string string
  | Presentation_save string

datatype tool_call =
    Window_tool window_call
  | Pane_tool pane_call
  | Browser_tool browser_call
  | Spreadsheet_tool spreadsheet_call
  | Document_tool document_call
  | Presentation_tool presentation_call

fun invoke_window :: "backend \<Rightarrow> window_call \<Rightarrow> world \<Rightarrow> tool_result" where
  "invoke_window be List_windows w = list_windows be w"
| "invoke_window be (Set_target_window window_id) w = set_target_window window_id w"
| "invoke_window be Get_target_window w = get_target_window w"

fun invoke_pane :: "backend \<Rightarrow> pane_call \<Rightarrow> world \<Rightarrow> tool_result" where
  "invoke_pane be (Open_pane a b c d) w = open_pane be a b c d w"
| "invoke_pane be (Close_pane a) w = close_pane be a w"
| "invoke_pane be (Focus_pane a) w = focus_pane be a w"
| "invoke_pane be List_panes w = list_panes be w"
| "invoke_pane be List_pane_types w = list_pane_types be w"
| "invoke_pane be List_actions w = list_actions be w"
| "invoke_pane be (Navigate_browser a b) w = navigate_browser be a b w"
| "invoke_pane be (Show_diff a b c) w = show_diff be a b c w"
| "invoke_pane be (Request_approval a b) w = request_approval be a b w"
| "invoke_pane be (Notify a b i) w = notify be a b i w"
| "invoke_pane be (Get_browser_info a) w = get_browser_info be a w"
| "invoke_pane be (Split_pane a b c d) w = split_pane be a b c d w"
| "invoke_pane be (Zen_mode a) w = zen_mode be a w"

fun invoke_browser :: "backend \<Rightarrow> browser_call \<Rightarrow> world \<Rightarrow> tool_result" where
  "invoke_browser be (Run_terminal a b) w = run_terminal be a b w"
| "invoke_browser be (Browser_click a b i c) w = browser_click be a b i c w"
| "invoke_browser be (Browser_type a b p q c) w = browser_type be a b p q c w"
| "invoke_browser be (Get_browser_content a) w = get_browser_content be a w"
| "invoke_browser be (Browser_screenshot a) w = browser_screenshot be a w"
| "invoke_browser be (Browser_eval a b) w = browser_eval be a b w"

fun invoke_spreadsheet :: "backend \<Rightarrow> spreadsheet_call \<Rightarrow> world \<Rightarrow> tool_result" where
  "invoke_spreadsheet be (Spreadsheet_read a i p) w = spreadsheet_read be a i p w"
| "invoke_spreadsheet be (Spreadsheet_eval a b) w = spreadsheet_eval be a b w"
| "invoke_spreadsheet be (Spreadsheet_update_cell i j a b) w = spreadsheet_update_cell be i j a b w"
| "invoke_spreadsheet be (Spreadsheet_update_cells us a) w = spreadsheet_update_cells be us a w"
| "invoke_spreadsheet be (Spreadsheet_add_row i a) w = spreadsheet_add_row be i a w"
| "invoke_spreadsheet be (Spreadsheet_delete_row i a) w = spreadsheet_delete_row be i a w"
| "invoke_spreadsheet be (Spreadsheet_add_column a b) w = spreadsheet_add_column be a b w"
| "invoke_spreadsheet be (Spreadsheet_delete_column i a) w = spreadsheet_delete_column be i a w"
| "invoke_spreadsheet be (Spreadsheet_sort i a b) w = spreadsheet_sort be i a b w"
| "invoke_spreadsheet be (Spreadsheet_stats i a) w = spreadsheet_stats be i a w"
| "invoke_spreadsheet be (Spreadsheet_save a) w = spreadsheet_save be a w"
| "invoke_spreadsheet be (Spreadsheet_export a b) w = spreadsheet_export be a b w"
| "invoke_spreadsheet be (Spreadsheet_switch_sheet a b) w = spreadsheet_switch_sheet be a b w"

fun invoke_document :: "backend \<Rightarrow> document_call \<Rightarrow> world \<Rightarrow> tool_result" where
  "invoke_document be (Document_read a b) w = document_read be a b w"
| "invoke_document be (Document_eval a b) w = document_eval be a b w"
| "invoke_document be (Document_write a b c) w = document_write be a b c w"
| "invoke_document be (Document_find_replace a b p c) w = document_find_replace be a b p c w"
| "invoke_document be (Document_format a b c) w = document_format be a b c w"
| "invoke_document be (Document_insert_table i j a) w = document_insert_table be i j a w"
| "invoke_document be (Document_save a) w = document_save be a w"
| "invoke_document be (Document_stats a) w = document_stats be a w"

fun invoke_presentation :: "backend \<Rightarrow> presentation_call \<Rightarrow> world \<Rightarrow> tool_result" where
  "invoke_presentation be (Presentation_read a) w = presentation_read be a w"
| "invoke_presentation be (Presentation_read_slide i a) w = presentation_read_slide be i a w"
| "invoke_presentation be (Presentation_eval a b) w = presentation_eval be a b w"
| "invoke_presentation be (Presentation_update_text i a j b) w = presentation_update_text be i a j b w"
| "invoke_presentation be (Presentation_add_slide a) w = presentation_add_slide be a w"
| "invoke_presentation be (Presentation_delete_slide i a) w = presentation_delete_slide be i a w"
| "invoke_presentation be (Presentation_duplicate_slide i a) w = presentation_duplicate_slide be i a w"
| "invoke_presentation be (Presentation_set_background a b) w = presentation_set_background be a b w"
| "invoke_presentation be (Presentation_add_shape a b c) w = presentation_add_shape be a b c w"
| "invoke_presentation be (Presentation_save a) w = presentation_save be a w"

fun invoke :: "backend \<Rightarrow> tool_call \<Rightarrow> world \<Rightarrow> tool_result" where
  "invoke be (Window_tool c) w = invoke_window be c w"
| "invoke be (Pane_tool c) w = invoke_pane be c w"
| "invoke be (Browser_tool c) w = invoke_browser be c w"
| "invoke be (Spreadsheet_tool c) w = invoke_spreadsheet be c w"
| "invoke be (Document_tool c) w = invoke_document be c w"
| "invoke be (Presentation_tool c) w = invoke_presentation be c w"

text \<open>The tools of the first section do not go through the relay.\<close>

fun window_tool :: "tool_call \<Rightarrow> bool" where
  "window_tool (Window_tool c) = True"
| "window_tool (Pane_tool c) = False"
| "window_tool (Browser_tool c) = False"
| "window_tool (Spreadsheet_tool c) = False"
| "window_tool (Document_tool c) = False"
| "window_tool (Presentation_tool c) = False"

section \<open>JSON texts\<close>


























section \<open>Sample environments\<close>

text \<open>
  Concrete surroundings for the examples below: the ports that accept a connection, a
  backend nobody listens on, one that accepts the connection and stays silent, one that
  answers 404, three that answer 200 (with a body that is no JSON, with an HTML page,
  with the number \<^verbatim>\<open>1e999\<close>, which \<^verbatim>\<open>response.json()\<close> reads as infinity), one that
  answers 200 with a list of panes, and the state of a freshly started process.
\<close>

definition listening :: "int list \<Rightarrow> int \<Rightarrow> bool" where
  "listening ports port = (port \<in> set ports)"

definition refusing_backend :: backend where
  "refusing_backend req = Inl (ClientError ''Cannot connect to host 127.0.0.1:5437'')"

definition not_found_backend :: backend where
  "not_found_backend req =
     Inr \<lparr>status = 404, json_body = Inl (ClientError ''unexpected mimetype''),
          text_body = Inr ''not found''\<rparr>"

definition garbled_backend :: backend where
  "garbled_backend req =
     Inr \<lparr>status = 200,
          json_body = Inl (OtherException ''Expecting value: line 1 column 1 (char 0)''),
          text_body = Inr ''<html>''\<rparr>"

definition silent_backend :: backend where
  "silent_backend req = Inl (client_raises No_response_in_time)"

definition html_backend :: backend where
  "html_backend req =
     Inr \<lparr>status = 200,
          json_body = Inl (reader_raises (Unexpected_mimetype
                        ''Attempt to decode JSON with unexpected mimetype: text/html'')),
          text_body = Inr ''<html>''\<rparr>"


definition ok_backend :: backend where
  "ok_backend req =
     Inr \<lparr>status = 200, json_body = Inr (JObj [(''success'', JBool True), (''panes'', JArr [])]),
          text_body = Inr (json_dumps (JObj [(''success'', JBool True), (''panes'', JArr [])]) None)\<rparr>"

definition fresh_world :: world where
  "fresh_world =
     \<lparr>INCOGNIDE_BACKEND_URL = ''http://127.0.0.1:5437'', target_window_id = [], sent = []\<rparr>"

section \<open>Auxiliary facts\<close>

subsection \<open>Printing integers\<close>

lemma str_nat_digit: "n < 10 \<Longrightarrow> str_nat n = [digit_char n]"
  by (simp add: str_nat.simps [of n])

lemma str_nat_more: "10 \<le> n \<Longrightarrow> str_nat n = str_nat (n div 10) @ [digit_char (n mod 10)]"
  by (simp add: str_nat.simps [of n])

lemma str_int_404: "str_int 404 = ''404''"
  by (simp add: str_int_def str_nat_digit str_nat_more digit_char_def)

lemma str_int_5337: "str_int 5337 = ''5337''"
  by (simp add: str_int_def str_nat_digit str_nat_more digit_char_def)

lemma str_int_5437: "str_int 5437 = ''5437''"
  by (simp add: str_int_def str_nat_digit str_nat_more digit_char_def)

subsection \<open>The relay and the state\<close>

lemma call_incognide_action_world:
  "snd (call_incognide_action be action args window_id w) =
     w\<lparr>sent := sent w @ [action_request w (action_payload action args
                          (if window_id \<noteq> [] then window_id else target_window_id w))]\<rparr>"
  by (simp add: call_incognide_action_def Let_def split: sum.splits exn.splits)


lemma relay_tool_world:
  "snd (relay_tool be action args w) =
     w\<lparr>sent := sent w @ [action_request w (action_payload action args (target_window_id w))]\<rparr>"
proof -
  obtain r w' where c: "call_incognide_action be action args [] w = (r, w')"
    by (cases "call_incognide_action be action args [] w")
  have "w' = snd (call_incognide_action be action args [] w)"
    using c by simp
  then have "w' = w\<lparr>sent := sent w @ [action_request w (action_payload action args (target_window_id w))]\<rparr>"
    by (simp add: call_incognide_action_world)
  then show ?thesis
    using c by (simp add: relay_tool_def split: sum.splits)
qed


lemma payload_window_id_request:
  "payload_window_id (action_request w (action_payload action args eff)) =
     (if eff = [] then None else Some (JStr eff))"
  by (simp add: payload_window_id_def action_request_def action_payload_def dict_get_def)

subsection \<open>Every tool outside the first section is a call of the relay\<close>

lemma invoke_pane_relay:
  "\<exists>action args. \<forall>w. invoke_pane be c w = relay_tool be action args w"
  by (cases c)
    (auto simp: open_pane_def close_pane_def focus_pane_def list_panes_def list_pane_types_def
      list_actions_def navigate_browser_def show_diff_def request_approval_def notify_def
      get_browser_info_def split_pane_def zen_mode_def)

lemma invoke_browser_relay:
  "\<exists>action args. \<forall>w. invoke_browser be c w = relay_tool be action args w"
  by (cases c)
    (auto simp: run_terminal_def browser_click_def browser_type_def get_browser_content_def
      browser_screenshot_def browser_eval_def)

lemma invoke_spreadsheet_relay:
  "\<exists>action args. \<forall>w. invoke_spreadsheet be c w = relay_tool be action args w"
  by (cases c)
    (auto simp: spreadsheet_read_def spreadsheet_eval_def spreadsheet_update_cell_def
      spreadsheet_update_cells_def spreadsheet_add_row_def spreadsheet_delete_row_def
      spreadsheet_add_column_def spreadsheet_delete_column_def spreadsheet_sort_def
      spreadsheet_stats_def spreadsheet_save_def spreadsheet_export_def
      spreadsheet_switch_sheet_def)

lemma invoke_document_relay:
  "\<exists>action args. \<forall>w. invoke_document be c w = relay_tool be action args w"
  by (cases c)
    (auto simp: document_read_def document_eval_def document_write_def
      document_find_replace_def document_format_def document_insert_table_def
      document_save_def document_stats_def)

lemma invoke_presentation_relay:
  "\<exists>action args. \<forall>w. invoke_presentation be c w = relay_tool be action args w"
  by (cases c)
    (auto simp: presentation_read_def presentation_read_slide_def presentation_eval_def
      presentation_update_text_def presentation_add_slide_def presentation_delete_slide_def
      presentation_duplicate_slide_def presentation_set_background_def
      presentation_add_shape_def presentation_save_def)

lemma invoke_relay:
  assumes "\<not> window_tool call"
  shows "\<exists>action args. \<forall>w. invoke be call w = relay_tool be action args w"
  using assms invoke_pane_relay invoke_browser_relay invoke_spreadsheet_relay
    invoke_document_relay invoke_presentation_relay
  by (cases call) simp_all

subsection \<open>What a tool sends and returns\<close>

lemma payload_args_request:
  "payload_args (action_request w (action_payload action args eff)) = Some args"
  by (simp add: payload_args_def action_request_def action_payload_def dict_get_def Let_def)

lemma relay_tool_sent:
  "sent (snd (relay_tool be action args w)) =
     sent w @ [action_request w (action_payload action args (target_window_id w))]"
  by (simp add: relay_tool_world)

lemma relay_tool_args:
  "\<exists>req. sent (snd (relay_tool be action args w)) = sent w @ [req] \<and> payload_args req = Some args"
  by (simp add: relay_tool_sent payload_args_request)



section \<open>Window targeting\<close>

text \<open>
  Claim C1. A call of the relay issues one POST whose payload carries, under
  \<^verbatim>\<open>window_id\<close>, the window id of the call when that is not empty and the value of the
  registry otherwise, and carries no such key when both are empty. Hence after
  \<^verbatim>\<open>set_target_window(wid)\<close> every tool that delegates to the relay sends
  \<^verbatim>\<open>window_id = wid\<close> for a non-empty \<open>wid\<close> (such as \<^verbatim>\<open>W1\<close>) and omits the key for the
  empty one.
\<close>

theorem relay_window_id_selection:
  "(\<exists>req. sent (snd (call_incognide_action be action args window_id w)) = sent w @ [req]
         \<and> req_method req = POST
         \<and> payload_window_id req =
             (if window_id \<noteq> [] then Some (JStr window_id)
              else if target_window_id w \<noteq> [] then Some (JStr (target_window_id w))
              else None))
   \<and> (\<not> window_tool call \<longrightarrow>
        (\<exists>req. sent (snd (invoke be call (snd (set_target_window wid w)))) = sent w @ [req]
           \<and> req_method req = POST
           \<and> payload_window_id req = (if wid = [] then None else Some (JStr wid))))"
proof (intro conjI impI)
  let ?eff = "if window_id \<noteq> [] then window_id else target_window_id w"
  let ?req = "action_request w (action_payload action args ?eff)"
  have "sent (snd (call_incognide_action be action args window_id w)) = sent w @ [?req]"
    by (simp add: call_incognide_action_world)
  moreover have "req_method ?req = POST"
    by (simp add: action_request_def)
  moreover have "payload_window_id ?req =
      (if window_id \<noteq> [] then Some (JStr window_id)
       else if target_window_id w \<noteq> [] then Some (JStr (target_window_id w)) else None)"
    by (simp add: payload_window_id_request)
  ultimately show "\<exists>req. sent (snd (call_incognide_action be action args window_id w)) = sent w @ [req]
         \<and> req_method req = POST
         \<and> payload_window_id req =
             (if window_id \<noteq> [] then Some (JStr window_id)
              else if target_window_id w \<noteq> [] then Some (JStr (target_window_id w))
              else None)"
    by blast
next
  assume "\<not> window_tool call"
  then obtain action args where r: "\<And>v. invoke be call v = relay_tool be action args v"
    using invoke_relay by blast
  let ?w1 = "snd (set_target_window wid w)"
  let ?req = "action_request ?w1 (action_payload action args wid)"
  have t: "target_window_id ?w1 = wid" and s: "sent ?w1 = sent w"
    by (simp_all add: set_target_window_def)
  have "sent (snd (invoke be call ?w1)) = sent w @ [?req]"
    by (simp add: r relay_tool_world t s)
  moreover have "req_method ?req = POST"
    by (simp add: action_request_def)
  moreover have "payload_window_id ?req = (if wid = [] then None else Some (JStr wid))"
    by (simp add: payload_window_id_request)
  ultimately show "\<exists>req. sent (snd (invoke be call (snd (set_target_window wid w)))) = sent w @ [req]
           \<and> req_method req = POST
           \<and> payload_window_id req = (if wid = [] then None else Some (JStr wid))"
    by blast
qed

theorem relay_window_id_selection_witness:
  "\<not> window_tool (Pane_tool List_panes)
   \<and> (\<exists>req. sent (snd (invoke refusing_backend (Pane_tool List_panes)
                        (snd (set_target_window ''W1'' fresh_world)))) = sent fresh_world @ [req]
          \<and> req_method req = POST
          \<and> payload_window_id req = Some (JStr ''W1''))
   \<and> (\<exists>req. sent (snd (invoke refusing_backend (Pane_tool List_panes)
                        (snd (set_target_window [] fresh_world)))) = sent fresh_world @ [req]
          \<and> req_method req = POST
          \<and> payload_window_id req = None)"
  using relay_window_id_selection [of refusing_backend "''x''" "[]" "[]" fresh_world "Pane_tool List_panes" "''W1''"]
    relay_window_id_selection [of refusing_backend "''x''" "[]" "[]" fresh_world "Pane_tool List_panes" "[]"]
  by simp

text \<open>
  Claim C4. A call of the relay with a non-empty window id of its own puts that id
  into its payload and leaves the state as it was but for the trace of requests; the
  registry in particular keeps its value, whatever the backend answers.
\<close>

theorem explicit_window_id_leaves_registry:
  "window_id \<noteq> [] \<Longrightarrow>
     (\<exists>req. snd (call_incognide_action be action args window_id w) = w\<lparr>sent := sent w @ [req]\<rparr>
        \<and> payload_window_id req = Some (JStr window_id))
     \<and> target_window_id (snd (call_incognide_action be action args window_id w)) = target_window_id w"
proof -
  assume n: "window_id \<noteq> []"
  let ?req = "action_request w (action_payload action args window_id)"
  have "snd (call_incognide_action be action args window_id w) = w\<lparr>sent := sent w @ [?req]\<rparr>"
    using n by (simp add: call_incognide_action_world)
  moreover have "payload_window_id ?req = Some (JStr window_id)"
    using n by (simp add: payload_window_id_request)
  ultimately show ?thesis
    by auto
qed

theorem explicit_window_id_leaves_registry_witness:
  "''W2'' \<noteq> []
   \<and> (\<exists>req. snd (call_incognide_action not_found_backend ''list_panes'' [] ''W2''
                     (snd (set_target_window ''W1'' fresh_world)))
             = (snd (set_target_window ''W1'' fresh_world))\<lparr>sent := sent (snd (set_target_window ''W1'' fresh_world)) @ [req]\<rparr>
          \<and> payload_window_id req = Some (JStr ''W2''))
   \<and> target_window_id (snd (call_incognide_action not_found_backend ''list_panes'' [] ''W2''
                               (snd (set_target_window ''W1'' fresh_world)))) = ''W1''"
  using explicit_window_id_leaves_registry [of "''W2''" not_found_backend "''list_panes''" "[]"
      "snd (set_target_window ''W1'' fresh_world)"]
  by (simp add: set_target_window_def)

text \<open>
  Claim C8. For every string \<open>x\<close>, the empty one included, \<^verbatim>\<open>set_target_window(x)\<close>
  returns a confirmation with \<^verbatim>\<open>success\<close> true and \<^verbatim>\<open>target_window_id = x\<close>, and
  \<^verbatim>\<open>get_target_window\<close> right after it returns \<^verbatim>\<open>target_window_id = x\<close> with
  \<^verbatim>\<open>is_set\<close> true exactly when \<open>x\<close> is not empty.
\<close>

theorem target_registry_round_trip:
  "fst (set_target_window x w) =
     Inr (json_dumps (JObj [(''success'', JBool True), (''target_window_id'', JStr x),
            (''message'', JStr (if x \<noteq> [] then ''Target window set to: '' @ x
                               else ''Target window cleared (broadcast mode)''))]) None)
   \<and> fst (get_target_window (snd (set_target_window x w))) =
       Inr (json_dumps (JObj [(''success'', JBool True), (''target_window_id'', JStr x),
              (''is_set'', JBool (x \<noteq> []))]) None)
   \<and> target_window_id (snd (set_target_window x w)) = x"
  by (simp add: set_target_window_def get_target_window_def set_target_window_confirmation_def
      get_target_window_answer_def)

theorem target_registry_round_trip_witness:
  "fst (get_target_window (snd (set_target_window ''W1'' fresh_world))) =
       Inr (json_dumps (JObj [(''success'', JBool True), (''target_window_id'', JStr ''W1''),
              (''is_set'', JBool True)]) None)
   \<and> fst (get_target_window (snd (set_target_window [] (snd (set_target_window ''W1'' fresh_world))))) =
       Inr (json_dumps (JObj [(''success'', JBool True), (''target_window_id'', JStr []),
              (''is_set'', JBool False)]) None)"
  using target_registry_round_trip [of "''W1''" fresh_world]
    target_registry_round_trip [of "[]" "snd (set_target_window ''W1'' fresh_world)"]
  by simp

section \<open>Backend discovery\<close>

text \<open>
  Claim C10. An override set to the empty string is treated as an absent one: discovery
  gives the same result, probes included, as with the variable unset, and the branch of
  the explicit override (no port tried) is taken exactly when the variable holds a
  non-empty value.
\<close>

theorem empty_override_is_absent:
  "detect_backend_url (environ(''INCOGNIDE_BACKEND_URL'' \<mapsto> [])) connects =
     detect_backend_url (environ(''INCOGNIDE_BACKEND_URL'' := None)) connects
   \<and> (snd (detect_backend_url environ connects) = [] \<longleftrightarrow>
        (\<exists>u. environ ''INCOGNIDE_BACKEND_URL'' = Some u \<and> u \<noteq> []))"
  by (auto simp: detect_backend_url_def environ_get_def Let_def split: option.splits prod.splits if_splits)

theorem empty_override_is_absent_witness:
  "detect_backend_url [''INCOGNIDE_BACKEND_URL'' \<mapsto> []] (listening [5337]) =
     detect_backend_url Map.empty (listening [5337])
   \<and> detect_backend_url Map.empty (listening [5337]) = (''http://127.0.0.1:5337'', [5337])"
  using empty_override_is_absent [of Map.empty "listening [5337]"]
  by (simp add: detect_backend_url_def environ_get_def listening_def str_int_5337)

text \<open>
  Claim C3 lets every supplied override win. An override supplied as the empty string
  does not: with both ports closed, discovery tries 5337 and 5437 and falls back to
  \<^verbatim>\<open>http://127.0.0.1:5437\<close> instead of returning the empty override.
\<close>

theorem supplied_empty_override_counterexample:
  "detect_backend_url [''INCOGNIDE_BACKEND_URL'' \<mapsto> []] (listening []) =
     (''http://127.0.0.1:5437'', [5337, 5437])"
  by (simp add: detect_backend_url_def environ_get_def listening_def str_int_5437)

text \<open>
  Claim C3, as the code has it. A non-empty override is returned as it is and no port is
  tried; with the variable unset or empty, port 5337 is tried first and gives
  \<^verbatim>\<open>http://127.0.0.1:5337\<close> when it accepts the connection, and otherwise port 5437 is
  tried and the result is \<^verbatim>\<open>http://127.0.0.1:5437\<close>, whether that port accepts or not.
\<close>

theorem backend_url_discovery:
  "(environ ''INCOGNIDE_BACKEND_URL'' = Some u \<and> u \<noteq> [] \<longrightarrow>
      detect_backend_url environ connects = (u, []))
   \<and> (environ ''INCOGNIDE_BACKEND_URL'' = None \<or> environ ''INCOGNIDE_BACKEND_URL'' = Some [] \<longrightarrow>
      detect_backend_url environ connects =
        (if connects 5337 then (''http://127.0.0.1:5337'', [5337])
         else (''http://127.0.0.1:5437'', [5337, 5437])))"
  by (auto simp: detect_backend_url_def environ_get_def Let_def str_int_5337 str_int_5437)

theorem backend_url_discovery_witness:
  "detect_backend_url [''INCOGNIDE_BACKEND_URL'' \<mapsto> ''http://10.0.0.5:9000''] (listening [5337, 5437])
     = (''http://10.0.0.5:9000'', [])
   \<and> detect_backend_url Map.empty (listening []) = (''http://127.0.0.1:5437'', [5337, 5437])
   \<and> detect_backend_url Map.empty (listening [5437]) = (''http://127.0.0.1:5437'', [5337, 5437])
   \<and> detect_backend_url Map.empty (listening [5337, 5437]) = (''http://127.0.0.1:5337'', [5337])"
  using backend_url_discovery [of "[''INCOGNIDE_BACKEND_URL'' \<mapsto> ''http://10.0.0.5:9000'']"
      "''http://10.0.0.5:9000''" "listening [5337, 5437]"]
    backend_url_discovery [of Map.empty "[]" "listening []"]
    backend_url_discovery [of Map.empty "[]" "listening [5437]"]
    backend_url_discovery [of Map.empty "[]" "listening [5337, 5437]"]
  by (simp add: listening_def)

section \<open>The results of the relay\<close>

text \<open>
  Claim C2 names the network failures, the timeout among them, as the source of
  \<^verbatim>\<open>"Connection error: <message>"\<close> and every other exception as the source of
  \<^verbatim>\<open>"Error: <message>"\<close>. The handlers go by the class of the exception instead. A
  backend that accepts the connection and stays silent makes the client raise
  \<^verbatim>\<open>asyncio.TimeoutError\<close>, no client error, so the answer is \<^verbatim>\<open>"Error: "\<close> with an empty
  message; an answer with status 200 whose content type is not JSON makes the reader
  raise a client error, so the answer is \<^verbatim>\<open>"Connection error: ..."\<close>.
\<close>

theorem timeout_and_mimetype_counterexample:
  "fst (call_incognide_action silent_backend ''list_panes'' [] [] fresh_world)
     = Inr (JObj [(''success'', JBool False), (''error'', JStr ''Error: '')])
   \<and> \<not> (\<exists>m. fst (call_incognide_action silent_backend ''list_panes'' [] [] fresh_world)
            = Inr (JObj [(''success'', JBool False), (''error'', JStr (''Connection error: '' @ m))]))
   \<and> fst (call_incognide_action html_backend ''list_panes'' [] [] fresh_world)
     = Inr (JObj [(''success'', JBool False),
                  (''error'', JStr ''Connection error: Attempt to decode JSON with unexpected mimetype: text/html'')])"
  by (simp add: call_incognide_action_def post_action_def silent_backend_def html_backend_def
      failure_def Let_def)

text \<open>
  Claim C2, as the code has it. The relay returns on every input and no exception
  leaves it. Status 200 with a body that parses gives the parsed body as it is; another
  status gives \<^verbatim>\<open>{success: false, error: "HTTP <status>: <body text>"}\<close>. A client error
  (\<^verbatim>\<open>aiohttp.ClientError\<close>), raised by the request, as for a refused connection or a
  failed name lookup, or by a reader of the response, as for a content type that is not
  JSON, gives \<^verbatim>\<open>"Connection error: <message>"\<close>. Every other exception, raised by the
  request, as for a backend that does not answer within the timeout, or by a reader, as
  for a body that does not parse, gives \<^verbatim>\<open>"Error: <message>"\<close>.
\<close>

theorem relay_result_by_outcome:
  fixes be action args window_id w
  defines "req \<equiv> action_request w (action_payload action args
                      (if window_id \<noteq> [] then window_id else target_window_id w))"
    and "out \<equiv> fst (call_incognide_action be action args window_id w)"
  shows
  "(\<exists>result. out = Inr result)
   \<and> (\<forall>response parsed. be req = Inr response \<and> status response = 200
          \<and> json_body response = Inr parsed \<longrightarrow> out = Inr parsed)
   \<and> (\<forall>response body. be req = Inr response \<and> status response \<noteq> 200
          \<and> text_body response = Inr body \<longrightarrow>
        out = Inr (JObj [(''success'', JBool False),
                         (''error'', JStr (''HTTP '' @ str_int (status response) @ '': '' @ body))]))
   \<and> (\<forall>m. be req = Inl (ClientError m)
          \<or> (\<exists>response. be req = Inr response \<and> status response = 200
                \<and> json_body response = Inl (ClientError m))
          \<or> (\<exists>response. be req = Inr response \<and> status response \<noteq> 200
                \<and> text_body response = Inl (ClientError m)) \<longrightarrow>
        out = Inr (JObj [(''success'', JBool False), (''error'', JStr (''Connection error: '' @ m))]))
   \<and> (\<forall>m. be req = Inl (OtherException m)
          \<or> (\<exists>response. be req = Inr response \<and> status response = 200
                \<and> json_body response = Inl (OtherException m))
          \<or> (\<exists>response. be req = Inr response \<and> status response \<noteq> 200
                \<and> text_body response = Inl (OtherException m)) \<longrightarrow>
        out = Inr (JObj [(''success'', JBool False), (''error'', JStr (''Error: '' @ m))]))
   \<and> (\<forall>m. be req = Inl (client_raises (Connection_refused m))
          \<or> be req = Inl (client_raises (Dns_failure m)) \<longrightarrow>
        out = Inr (JObj [(''success'', JBool False), (''error'', JStr (''Connection error: '' @ m))]))
   \<and> (be req = Inl (client_raises No_response_in_time) \<longrightarrow>
        out = Inr (JObj [(''success'', JBool False), (''error'', JStr ''Error: '')]))
   \<and> (\<forall>response m. be req = Inr response \<and> status response = 200
          \<and> json_body response = Inl (reader_raises (Unexpected_mimetype m)) \<longrightarrow>
        out = Inr (JObj [(''success'', JBool False), (''error'', JStr (''Connection error: '' @ m))]))
   \<and> (\<forall>response m. be req = Inr response \<and> status response = 200
          \<and> json_body response = Inl (reader_raises (Malformed_body m)) \<longrightarrow>
        out = Inr (JObj [(''success'', JBool False), (''error'', JStr (''Error: '' @ m))]))"
proof -
  have out: "out = (case post_action be req of
      Inr result \<Rightarrow> Inr result
    | Inl (ClientError m) \<Rightarrow>
        Inr (JObj [(''success'', JBool False), (''error'', JStr (''Connection error: '' @ m))])
    | Inl (OtherException m) \<Rightarrow>
        Inr (JObj [(''success'', JBool False), (''error'', JStr (''Error: '' @ m))]))"
    unfolding req_def out_def
    by (simp add: call_incognide_action_def failure_def Let_def split: sum.splits exn.splits)
  have raised: "\<And>e. be req = Inl e \<Longrightarrow> post_action be req = Inl e"
    by (simp add: post_action_def)
  have ok: "\<And>response. be req = Inr response \<Longrightarrow> status response = 200
      \<Longrightarrow> post_action be req = json_body response"
    by (simp add: post_action_def)
  have bad: "\<And>response e. be req = Inr response \<Longrightarrow> status response \<noteq> 200
      \<Longrightarrow> text_body response = Inl e \<Longrightarrow> post_action be req = Inl e"
    by (simp add: post_action_def)
  have http: "\<And>response body. be req = Inr response \<Longrightarrow> status response \<noteq> 200
      \<Longrightarrow> text_body response = Inr body
      \<Longrightarrow> post_action be req = Inr (JObj [(''success'', JBool False),
            (''error'', JStr (''HTTP '' @ str_int (status response) @ '': '' @ body))])"
    by (simp add: post_action_def failure_def)
  have c1: "\<exists>result. out = Inr result"
    by (simp add: out split: sum.splits exn.splits)
  have c2: "\<forall>response parsed. be req = Inr response \<and> status response = 200
          \<and> json_body response = Inr parsed \<longrightarrow> out = Inr parsed"
    by (simp add: out ok)
  have c3: "\<forall>response body. be req = Inr response \<and> status response \<noteq> 200
          \<and> text_body response = Inr body \<longrightarrow>
        out = Inr (JObj [(''success'', JBool False),
                         (''error'', JStr (''HTTP '' @ str_int (status response) @ '': '' @ body))])"
    by (simp add: out http)
  have c4: "\<forall>m. be req = Inl (ClientError m)
          \<or> (\<exists>response. be req = Inr response \<and> status response = 200
                \<and> json_body response = Inl (ClientError m))
          \<or> (\<exists>response. be req = Inr response \<and> status response \<noteq> 200
                \<and> text_body response = Inl (ClientError m)) \<longrightarrow>
        out = Inr (JObj [(''success'', JBool False), (''error'', JStr (''Connection error: '' @ m))])"
  proof (intro allI impI)
    fix m
    assume "be req = Inl (ClientError m)
          \<or> (\<exists>response. be req = Inr response \<and> status response = 200
                \<and> json_body response = Inl (ClientError m))
          \<or> (\<exists>response. be req = Inr response \<and> status response \<noteq> 200
                \<and> text_body response = Inl (ClientError m))"
    then have "post_action be req = Inl (ClientError m)"
      using raised ok bad by metis
    then show "out = Inr (JObj [(''success'', JBool False), (''error'', JStr (''Connection error: '' @ m))])"
      by (simp add: out)
  qed
  have c5: "\<forall>m. be req = Inl (OtherException m)
          \<or> (\<exists>response. be req = Inr response \<and> status response = 200
                \<and> json_body response = Inl (OtherException m))
          \<or> (\<exists>response. be req = Inr response \<and> status response \<noteq> 200
                \<and> text_body response = Inl (OtherException m)) \<longrightarrow>
        out = Inr (JObj [(''success'', JBool False), (''error'', JStr (''Error: '' @ m))])"
  proof (intro allI impI)
    fix m
    assume "be req = Inl (OtherException m)
          \<or> (\<exists>response. be req = Inr response \<and> status response = 200
                \<and> json_body response = Inl (OtherException m))
          \<or> (\<exists>response. be req = Inr response \<and> status response \<noteq> 200
                \<and> text_body response = Inl (OtherException m))"
    then have "post_action be req = Inl (OtherException m)"
      using raised ok bad by metis
    then show "out = Inr (JObj [(''success'', JBool False), (''error'', JStr (''Error: '' @ m))])"
      by (simp add: out)
  qed
  have c6: "\<forall>m. be req = Inl (client_raises (Connection_refused m))
          \<or> be req = Inl (client_raises (Dns_failure m)) \<longrightarrow>
        out = Inr (JObj [(''success'', JBool False), (''error'', JStr (''Connection error: '' @ m))])"
    using c4 by simp
  have c7: "be req = Inl (client_raises No_response_in_time) \<longrightarrow>
        out = Inr (JObj [(''success'', JBool False), (''error'', JStr ''Error: '')])"
    using c5 by simp
  have c8: "\<forall>response m. be req = Inr response \<and> status response = 200
          \<and> json_body response = Inl (reader_raises (Unexpected_mimetype m)) \<longrightarrow>
        out = Inr (JObj [(''success'', JBool False), (''error'', JStr (''Connection error: '' @ m))])"
    using c4 by auto
  have c9: "\<forall>response m. be req = Inr response \<and> status response = 200
          \<and> json_body response = Inl (reader_raises (Malformed_body m)) \<longrightarrow>
        out = Inr (JObj [(''success'', JBool False), (''error'', JStr (''Error: '' @ m))])"
    using c5 by auto
  from c1 c2 c3 c4 c5 c6 c7 c8 c9 show ?thesis
    by (intro conjI)
qed

theorem relay_result_by_outcome_witness:
  "fst (call_incognide_action not_found_backend ''list_panes'' [] [] fresh_world)
     = Inr (JObj [(''success'', JBool False), (''error'', JStr ''HTTP 404: not found'')])
   \<and> fst (call_incognide_action refusing_backend ''list_panes'' [] [] fresh_world)
     = Inr (JObj [(''success'', JBool False),
                  (''error'', JStr ''Connection error: Cannot connect to host 127.0.0.1:5437'')])
   \<and> fst (call_incognide_action silent_backend ''list_panes'' [] [] fresh_world)
     = Inr (JObj [(''success'', JBool False), (''error'', JStr ''Error: '')])
   \<and> fst (call_incognide_action html_backend ''list_panes'' [] [] fresh_world)
     = Inr (JObj [(''success'', JBool False),
                  (''error'', JStr ''Connection error: Attempt to decode JSON with unexpected mimetype: text/html'')])
   \<and> fst (call_incognide_action garbled_backend ''list_panes'' [] [] fresh_world)
     = Inr (JObj [(''success'', JBool False),
                  (''error'', JStr ''Error: Expecting value: line 1 column 1 (char 0)'')])
   \<and> fst (call_incognide_action ok_backend ''list_panes'' [] [] fresh_world)
     = Inr (JObj [(''success'', JBool True), (''panes'', JArr [])])"
  using relay_result_by_outcome [of not_found_backend "''list_panes''" "[]" "[]" fresh_world]
    relay_result_by_outcome [of refusing_backend "''list_panes''" "[]" "[]" fresh_world]
    relay_result_by_outcome [of silent_backend "''list_panes''" "[]" "[]" fresh_world]
    relay_result_by_outcome [of html_backend "''list_panes''" "[]" "[]" fresh_world]
    relay_result_by_outcome [of garbled_backend "''list_panes''" "[]" "[]" fresh_world]
    relay_result_by_outcome [of ok_backend "''list_panes''" "[]" "[]" fresh_world]
  by (simp add: not_found_backend_def refusing_backend_def silent_backend_def html_backend_def
      garbled_backend_def ok_backend_def str_int_404)

section \<open>Listing the windows\<close>



section \<open>Requests per tool call\<close>




section \<open>Optional fields of the argument mapping\<close>

text \<open>
  Claim C7 turns a sentinel index into an absent field. The wrappers with such an index
  keep the key and send \<^verbatim>\<open>null\<close> under it, here \<^verbatim>\<open>spreadsheet_add_row(index=-1)\<close>.
\<close>

theorem sentinel_index_counterexample:
  "sent (snd (spreadsheet_add_row ok_backend (- 1) ''active'' fresh_world)) =
     [\<lparr>req_method = POST, req_url = ''http://127.0.0.1:5437/api/studio/action'',
       req_json = Some (JObj [(''action'', JStr ''spreadsheet_add_row''),
                              (''args'', JObj [(''paneId'', JStr ''active''), (''index'', JNull)])]),
       req_timeout_total = 30\<rparr>]
   \<and> dict_get (spreadsheet_add_row_args (- 1) ''active'') ''index'' = Some JNull
   \<and> dict_has (spreadsheet_add_row_args (- 1) ''active'') ''index''
   \<and> dict_get (presentation_read_slide_args (- 1) ''active'') ''slideIndex'' = Some JNull"
  by (simp add: spreadsheet_add_row_def spreadsheet_add_row_args_def presentation_read_slide_args_def
      relay_tool_sent action_request_def action_payload_def fresh_world_def dict_get_def dict_has_def)

text \<open>
  Claim C7, as the code has it. In the five wrappers with a sentinel index, a negative
  index is sent as \<^verbatim>\<open>null\<close> under its key and an index from 0 on is sent as it is.
  \<^verbatim>\<open>open_pane\<close> always sends \<^verbatim>\<open>type\<close> and \<^verbatim>\<open>position\<close>, sends a non-empty content id
  under \<^verbatim>\<open>url\<close> for the pane type \<^verbatim>\<open>browser\<close> and under \<^verbatim>\<open>path\<close> for every other type,
  sends a non-empty shell type under \<^verbatim>\<open>shellType\<close>, and leaves these keys out for an
  empty value.
\<close>

theorem optional_field_defaulting:
  "(\<exists>req. sent (snd (spreadsheet_add_row be index pane_id w)) = sent w @ [req]
        \<and> payload_args req =
            Some [(''paneId'', JStr pane_id), (''index'', if index \<ge> 0 then JInt index else JNull)])
   \<and> (\<exists>req. sent (snd (presentation_read_slide be index pane_id w)) = sent w @ [req]
        \<and> payload_args req =
            Some [(''paneId'', JStr pane_id), (''slideIndex'', if index \<ge> 0 then JInt index else JNull)])
   \<and> (\<exists>req. sent (snd (presentation_update_text be shape_index text index pane_id w)) = sent w @ [req]
        \<and> payload_args req =
            Some [(''paneId'', JStr pane_id), (''shapeIndex'', JInt shape_index), (''text'', JStr text),
                  (''slideIndex'', if index \<ge> 0 then JInt index else JNull)])
   \<and> (\<exists>req. sent (snd (presentation_delete_slide be index pane_id w)) = sent w @ [req]
        \<and> payload_args req =
            Some [(''paneId'', JStr pane_id), (''slideIndex'', if index \<ge> 0 then JInt index else JNull)])
   \<and> (\<exists>req. sent (snd (presentation_duplicate_slide be index pane_id w)) = sent w @ [req]
        \<and> payload_args req =
            Some [(''paneId'', JStr pane_id), (''slideIndex'', if index \<ge> 0 then JInt index else JNull)])
   \<and> (\<exists>req args. sent (snd (open_pane be pane_type content_id position shell_type w)) = sent w @ [req]
        \<and> payload_args req = Some args
        \<and> dict_get args ''type'' = Some (JStr pane_type)
        \<and> dict_get args ''position'' = Some (JStr position)
        \<and> dict_get args ''url'' =
             (if content_id \<noteq> [] \<and> pane_type = ''browser'' then Some (JStr content_id) else None)
        \<and> dict_get args ''path'' =
             (if content_id \<noteq> [] \<and> pane_type \<noteq> ''browser'' then Some (JStr content_id) else None)
        \<and> dict_get args ''shellType'' = (if shell_type \<noteq> [] then Some (JStr shell_type) else None))"
proof (intro conjI)
  show "\<exists>req. sent (snd (spreadsheet_add_row be index pane_id w)) = sent w @ [req]
        \<and> payload_args req =
            Some [(''paneId'', JStr pane_id), (''index'', if index \<ge> 0 then JInt index else JNull)]"
    using relay_tool_args [of be "''spreadsheet_add_row''" "spreadsheet_add_row_args index pane_id" w]
    by (simp add: spreadsheet_add_row_def spreadsheet_add_row_args_def)
next
  show "\<exists>req. sent (snd (presentation_read_slide be index pane_id w)) = sent w @ [req]
        \<and> payload_args req =
            Some [(''paneId'', JStr pane_id), (''slideIndex'', if index \<ge> 0 then JInt index else JNull)]"
    using relay_tool_args [of be "''presentation_read_slide''" "presentation_read_slide_args index pane_id" w]
    by (simp add: presentation_read_slide_def presentation_read_slide_args_def)
next
  show "\<exists>req. sent (snd (presentation_update_text be shape_index text index pane_id w)) = sent w @ [req]
        \<and> payload_args req =
            Some [(''paneId'', JStr pane_id), (''shapeIndex'', JInt shape_index), (''text'', JStr text),
                  (''slideIndex'', if index \<ge> 0 then JInt index else JNull)]"
    using relay_tool_args [of be "''presentation_update_text''"
        "presentation_update_text_args shape_index text index pane_id" w]
    by (simp add: presentation_update_text_def presentation_update_text_args_def)
next
  show "\<exists>req. sent (snd (presentation_delete_slide be index pane_id w)) = sent w @ [req]
        \<and> payload_args req =
            Some [(''paneId'', JStr pane_id), (''slideIndex'', if index \<ge> 0 then JInt index else JNull)]"
    using relay_tool_args [of be "''presentation_delete_slide''" "presentation_delete_slide_args index pane_id" w]
    by (simp add: presentation_delete_slide_def presentation_delete_slide_args_def)
next
  show "\<exists>req. sent (snd (presentation_duplicate_slide be index pane_id w)) = sent w @ [req]
        \<and> payload_args req =
            Some [(''paneId'', JStr pane_id), (''slideIndex'', if index \<ge> 0 then JInt index else JNull)]"
    using relay_tool_args [of be "''presentation_duplicate_slide''"
        "presentation_duplicate_slide_args index pane_id" w]
    by (simp add: presentation_duplicate_slide_def presentation_duplicate_slide_args_def)
next
  let ?args = "open_pane_args pane_type content_id position shell_type"
  obtain req where r: "sent (snd (open_pane be pane_type content_id position shell_type w)) = sent w @ [req]"
      and p: "payload_args req = Some ?args"
    using relay_tool_args [of be "''open_pane''" ?args w]
    by (auto simp: open_pane_def)
  have "dict_get ?args ''type'' = Some (JStr pane_type)"
    and "dict_get ?args ''position'' = Some (JStr position)"
    and "dict_get ?args ''url'' =
             (if content_id \<noteq> [] \<and> pane_type = ''browser'' then Some (JStr content_id) else None)"
    and "dict_get ?args ''path'' =
             (if content_id \<noteq> [] \<and> pane_type \<noteq> ''browser'' then Some (JStr content_id) else None)"
    and "dict_get ?args ''shellType'' = (if shell_type \<noteq> [] then Some (JStr shell_type) else None)"
    by (simp_all add: open_pane_args_def dict_get_def Let_def)
  with r p show "\<exists>req args. sent (snd (open_pane be pane_type content_id position shell_type w)) = sent w @ [req]
        \<and> payload_args req = Some args
        \<and> dict_get args ''type'' = Some (JStr pane_type)
        \<and> dict_get args ''position'' = Some (JStr position)
        \<and> dict_get args ''url'' =
             (if content_id \<noteq> [] \<and> pane_type = ''browser'' then Some (JStr content_id) else None)
        \<and> dict_get args ''path'' =
             (if content_id \<noteq> [] \<and> pane_type \<noteq> ''browser'' then Some (JStr content_id) else None)
        \<and> dict_get args ''shellType'' = (if shell_type \<noteq> [] then Some (JStr shell_type) else None)"
    by blast
qed

theorem optional_field_defaulting_witness:
  "(\<exists>req. sent (snd (spreadsheet_add_row ok_backend (- 1) ''active'' fresh_world)) = [req]
        \<and> payload_args req = Some [(''paneId'', JStr ''active''), (''index'', JNull)])
   \<and> (\<exists>req. sent (snd (presentation_read_slide ok_backend 2 ''active'' fresh_world)) = [req]
        \<and> payload_args req = Some [(''paneId'', JStr ''active''), (''slideIndex'', JInt 2)])
   \<and> (\<exists>req args. sent (snd (open_pane ok_backend ''browser'' ''https://example.org'' ''right'' [] fresh_world)) = [req]
        \<and> payload_args req = Some args
        \<and> dict_get args ''type'' = Some (JStr ''browser'')
        \<and> dict_get args ''position'' = Some (JStr ''right'')
        \<and> dict_get args ''url'' = Some (JStr ''https://example.org'')
        \<and> dict_get args ''path'' = None
        \<and> dict_get args ''shellType'' = None)"
  using optional_field_defaulting [of ok_backend "- 1" "''active''" fresh_world 0 "[]" "''browser''"
      "''https://example.org''" "''right''" "[]"]
    optional_field_defaulting [of ok_backend 2 "''active''" fresh_world 0 "[]" "''browser''"
      "''https://example.org''" "''right''" "[]"]
  by (simp add: fresh_world_def)

section \<open>The text a tool returns\<close>

subsection \<open>The encoder writes JSON for finite floats\<close>

subsection \<open>The encoder writes JSON\<close>






























subsection \<open>Outside of string literals a JSON text holds token characters only\<close>





















subsection \<open>Compact and pretty-printed objects differ\<close>







subsection \<open>What every tool returns\<close>















end
